theory Spec2Isabelle
  imports Complex_Main
begin

section \<open>Data model of the game orchestrator\<close>

text \<open>
  The development follows \<^verbatim>\<open>src/components/game/game.ts\<close> (class \<^verbatim>\<open>Game\<close>) and the
  render surface class \<^verbatim>\<open>Canvas\<close>. JavaScript numbers that hold coordinates, levels,
  rarities and difficulties are integers in the data of the game and are modelled as
  \<^typ>\<open>int\<close>; the values of \<^verbatim>\<open>Math.random()\<close> and everything computed from them are
  modelled as \<^typ>\<open>real\<close> (an idealisation of IEEE doubles). \<^verbatim>\<open>null\<close> and
  \<^verbatim>\<open>undefined\<close> are \<^term>\<open>None\<close>.
\<close>

record position =
  pos_x :: int
  pos_y :: int

record terrain =
  terrain_type :: string
  terrain_label :: string
  terrain_color :: string
  difficulty :: int

record player_state =
  abilities :: "string set"
  conditions :: "string set"
  energy :: int
  health :: int
  maxEnergy :: int
  maxHealth :: int
  position :: position
  requirements :: "string set"
  warned :: bool
  xp :: int

record button =
  button_label :: string

text \<open>The payload of \<^verbatim>\<open>WINDOW_OPEN\<close>; a content line may be \<^verbatim>\<open>undefined\<close>.\<close>

record window_data =
  buttons :: "button list"
  content :: "string option list"
  title :: string

record ui_state =
  isPaused :: bool
  windows :: "window_data list"

record world_state =
  currentBiome :: "string option"
  currentTerrain :: "terrain option"

record game_state =
  player :: player_state
  ui :: ui_state
  world :: world_state

text \<open>
  An entry of the monster catalog \<^verbatim>\<open>MONSTERS\<close>. The data file is not among the sources;
  the fields are the ones \<^verbatim>\<open>checkForEncounters\<close> reads.
\<close>

record monster =
  m_abilities :: "string list"
  m_aggression :: string
  m_behavior :: string
  m_description :: string
  m_intelligence :: string
  m_lore :: string
  m_name :: string
  m_size :: string
  rarity :: int
  minLevel :: int
  maxLevel :: int
  baseHealth :: int
  validBiomes :: "string list"

text \<open>The object literal \<^verbatim>\<open>monster\<close> built in \<^verbatim>\<open>checkForEncounters\<close>.\<close>

record monster_instance =
  i_abilities :: "string list"
  i_aggression :: string
  i_behavior :: string
  i_description :: string
  i_intelligence :: string
  i_level :: int
  i_lore :: string
  i_maxHealth :: int
  i_name :: string
  i_size :: string

text \<open>An element of the result of \<^verbatim>\<open>World.getAdjacentTerrain\<close>: \<^verbatim>\<open>{x, y, terrain: {terrain, biomeName}}\<close>.\<close>

record adjacent =
  adj_x :: int
  adj_y :: int
  adj_terrain :: terrain
  adj_biomeName :: string

text \<open>The object serialised into the prompt, and the request handed to \<^verbatim>\<open>fetch\<close>.\<close>

record prompt_data =
  pd_currentTerrain :: string
  pd_monster :: monster_instance
  pd_playerState :: player_state
  pd_surroundingTerrain :: "string list"

datatype js_object = PromptObject prompt_data | BodyObject string

record request =
  req_url :: string
  req_body :: string
  req_headers :: "(string \<times> string) list"
  req_method :: string

text \<open>
  How the awaited \<^verbatim>\<open>fetch\<close> and \<^verbatim>\<open>resp.json()\<close> can end: \<^verbatim>\<open>fetch\<close> rejects, the body is
  not JSON, the body is the JSON value \<^verbatim>\<open>null\<close>, or the body is a JSON value whose
  \<^verbatim>\<open>text\<close> property is the given string (\<^term>\<open>None\<close> when the property is missing).
\<close>

datatype ai_response = NetworkFailure | MalformedBody | JsonNull | JsonData "string option"

datatype js_error = TypeError | SyntaxError

text \<open>The state of the promise an \<^verbatim>\<open>async\<close> method has returned.\<close>

datatype promise_state = Fulfilled | Rejected js_error | Pending

datatype player_call = Move int int | Rest | OpenInventory | Search

datatype subtree_update =
    Ui_isPaused bool
  | World_info string terrain

text \<open>
  Everything the orchestrator does to its collaborators, in the order it does it:
  dispatches to the state store, redraws, requests, emitted events, windows constructed
  and calls to methods of \<^verbatim>\<open>Player\<close>.
\<close>

datatype effect =
    Dispatch subtree_update
  | Redraw
  | Fetch request
  | Emit_WINDOW_OPEN window_data
  | NewWindow window_data
  | PlayerCall player_call

text \<open>
  The running system: the state tree held by the state store, the trace of effects so
  far, and how many values \<^verbatim>\<open>Math.random()\<close> has handed out.
\<close>

record sys =
  gstate :: game_state
  trace :: "effect list"
  rngCount :: nat

text \<open>
  The collaborators \<^verbatim>\<open>Game\<close> is wired to and that are not part of the sources: the
  world generator, the catalog (in the order of \<^verbatim>\<open>Object.values(MONSTERS)\<close>), the
  sequence of values of \<^verbatim>\<open>Math.random()\<close> and \<^verbatim>\<open>JSON.stringify\<close>.
\<close>

record env =
  getTerrain :: "int \<Rightarrow> int \<Rightarrow> terrain \<times> string"
  getAdjacentTerrain :: "int \<Rightarrow> int \<Rightarrow> int \<Rightarrow> adjacent list"
  MONSTERS :: "monster list"
  random :: "nat \<Rightarrow> real"
  JSON_stringify :: "js_object \<Rightarrow> string"

section \<open>State store, drawing, pause and resume\<close>

definition createInitialState :: game_state where
  "createInitialState =
     \<lparr>player = \<lparr>abilities = {}, conditions = {}, energy = 100, health = 100,
                 maxEnergy = 100, maxHealth = 100, position = \<lparr>pos_x = 0, pos_y = 0\<rparr>,
                 requirements = {}, warned = False, xp = 0\<rparr>,
      ui = \<lparr>isPaused = False, windows = []\<rparr>,
      world = \<lparr>currentBiome = None, currentTerrain = None\<rparr>\<rparr>"

definition emitEffect :: "effect \<Rightarrow> sys \<Rightarrow> sys" where
  "emitEffect e s = s\<lparr>trace := trace s @ [e]\<rparr>"

text \<open>\<^verbatim>\<open>draw\<close> only reads the state and paints; it is one opaque effect here.\<close>

definition draw :: "sys \<Rightarrow> sys" where
  "draw s = emitEffect Redraw s"

text \<open>
  Modelled from the spec: \<^verbatim>\<open>StateManager.dispatch\<close> (\<^verbatim>\<open>lib/stateManager\<close> is not among the
  sources). It shallow-merges the partial update into the named subtree, leaving the
  other fields and subtrees alone, and then calls every subscriber; the one subscriber
  \<^verbatim>\<open>Game.setupEventListeners\<close> registers is \<^verbatim>\<open>draw\<close>.
\<close>

definition merge :: "subtree_update \<Rightarrow> game_state \<Rightarrow> game_state" where
  "merge u g =
     (case u of
        Ui_isPaused b \<Rightarrow> g\<lparr>ui := (ui g)\<lparr>isPaused := b\<rparr>\<rparr>
      | World_info biomeName t \<Rightarrow>
          g\<lparr>world := (world g)\<lparr>currentBiome := Some biomeName, currentTerrain := Some t\<rparr>\<rparr>)"

definition dispatch :: "subtree_update \<Rightarrow> sys \<Rightarrow> sys" where
  "dispatch u s = draw (emitEffect (Dispatch u) (s\<lparr>gstate := merge u (gstate s)\<rparr>))"

definition pause :: "sys \<Rightarrow> sys" where
  "pause s = dispatch (Ui_isPaused True) s"

definition resume :: "sys \<Rightarrow> sys" where
  "resume s = draw (dispatch (Ui_isPaused False) s)"

definition updatePlayerWorldInfo :: "env \<Rightarrow> sys \<Rightarrow> sys" where
  "updatePlayerWorldInfo e s =
     (let pos = position (player (gstate s));
          (t, biomeName) = getTerrain e (pos_x pos) (pos_y pos)
      in dispatch (World_info biomeName t) s)"

definition start :: "env \<Rightarrow> sys \<Rightarrow> sys" where
  "start e s = draw (updatePlayerWorldInfo e (dispatch (Ui_isPaused False) s))"

text \<open>
  Modelled from the spec: \<^verbatim>\<open>EventSystem.emit\<close> (\<^verbatim>\<open>lib/eventSystem\<close> is not among the
  sources) calls the handlers of the event synchronously. For \<^verbatim>\<open>WINDOW_OPEN\<close> the
  handler registered by \<^verbatim>\<open>Game.setupEventListeners\<close> pauses and constructs the window.
\<close>

definition emit_WINDOW_OPEN :: "window_data \<Rightarrow> sys \<Rightarrow> sys" where
  "emit_WINDOW_OPEN w s = emitEffect (NewWindow w) (pause (emitEffect (Emit_WINDOW_OPEN w) s))"

definition on_WINDOW_CLOSE :: "sys \<Rightarrow> sys" where
  "on_WINDOW_CLOSE s = draw (resume s)"

section \<open>Keyboard input\<close>

definition helpWindow :: window_data where
  "helpWindow =
     \<lparr>buttons = [\<lparr>button_label = ''Close''\<rparr>],
      content = map Some
        [''Arrow Keys: Movement'', ''R: Rest'', ''S: Search'', ''B: Build'',
         ''E: Enter/Explore'', ''I: Open Inventory'', ''P: Show Player'', ''H: Help'',
         ''Esc: Settings'', '''',
         ''The bar along the top contains all your player stats, but for more details you can open the player pane with P. Explore the world, avoid the dangers.'',
         ''Be careful.''],
      title = ''Help & Controls''\<rparr>"

definition help_game :: "sys \<Rightarrow> sys" where
  "help_game s = emit_WINDOW_OPEN helpWindow s"

text \<open>
  The methods of \<^verbatim>\<open>Player\<close> are not among the sources: a call is recorded in the trace
  and what the method then does is outside the model.
\<close>

definition handleKeyPress :: "string \<Rightarrow> sys \<Rightarrow> sys" where
  "handleKeyPress key s =
     (if isPaused (ui (gstate s)) then s
      else if key = ''ArrowLeft'' then emitEffect (PlayerCall (Move (-1) 0)) s
      else if key = ''ArrowRight'' then emitEffect (PlayerCall (Move 1 0)) s
      else if key = ''ArrowUp'' then emitEffect (PlayerCall (Move 0 (-1))) s
      else if key = ''ArrowDown'' then emitEffect (PlayerCall (Move 0 1)) s
      else if key = ''r'' then emitEffect (PlayerCall Rest) s
      else if key = ''i'' then emitEffect (PlayerCall OpenInventory) s
      else if key = ''s'' then emitEffect (PlayerCall Search) s
      else if key = ''h'' then help_game s
      else if key = ''Escape'' then help_game s
      else s)"

text \<open>The \<^verbatim>\<open>keydown\<close> listener installed by \<^verbatim>\<open>setupEventListeners\<close>.\<close>

definition keydown :: "string \<Rightarrow> sys \<Rightarrow> sys" where
  "keydown key s = (if isPaused (ui (gstate s)) then s else handleKeyPress key s)"

definition initialSys :: sys where
  "initialSys = \<lparr>gstate = createInitialState, trace = [], rngCount = 0\<rparr>"

section \<open>Numbers in template literals\<close>

text \<open>
  \<^verbatim>\<open>`${n}`\<close> for an integer \<^verbatim>\<open>n\<close> is its decimal numeral, with a leading minus sign when
  negative.
\<close>

definition digit_char :: "nat \<Rightarrow> char" where
  "digit_char d = ''0123456789'' ! d"

function digits :: "nat \<Rightarrow> string" where
  "digits n = (if n < 10 then [digit_char n] else digits (n div 10) @ [digit_char (n mod 10)])"
  by pat_completeness auto
termination
  by (relation "measure id") auto

declare digits.simps [simp del]

definition numberToString :: "int \<Rightarrow> string" where
  "numberToString i = (if i < 0 then CHR ''-'' # digits (nat (- i)) else digits (nat i))"

section \<open>The encounter sampler\<close>

text \<open>\<^verbatim>\<open>Math.random()\<close>: the next value of the sequence.\<close>

definition mathRandom :: "env \<Rightarrow> sys \<Rightarrow> real \<times> sys" where
  "mathRandom e s = (random e (rngCount s), s\<lparr>rngCount := Suc (rngCount s)\<rparr>)"

text \<open>\<^verbatim>\<open>Array.prototype.includes\<close> on an array of strings; \<^verbatim>\<open>null\<close> is never found.\<close>

definition includes_str :: "string list \<Rightarrow> string option \<Rightarrow> bool" where
  "includes_str xs v = (case v of None \<Rightarrow> False | Some b \<Rightarrow> b \<in> set xs)"

definition validMonsters_of :: "env \<Rightarrow> game_state \<Rightarrow> monster list" where
  "validMonsters_of e currentState =
     filter (\<lambda>m. length (validBiomes m) = 0
                \<or> includes_str (validBiomes m) (currentBiome (world currentState)))
       (MONSTERS e)"

text \<open>\<^verbatim>\<open>Math.max(...vs)\<close>; \<^term>\<open>None\<close> stands for \<^verbatim>\<open>-Infinity\<close>, the value for no arguments.\<close>

fun Math_max :: "int list \<Rightarrow> int option" where
  "Math_max [] = None"
| "Math_max (v # vs) = Some (fold max vs v)"

definition weight :: "int \<Rightarrow> monster \<Rightarrow> int" where
  "weight highestRarity m = highestRarity - rarity m + 1"

text \<open>The \<^verbatim>\<open>reduce\<close> that sums the weights, from 0.\<close>

definition totalWeight :: "int \<Rightarrow> monster list \<Rightarrow> int" where
  "totalWeight highestRarity ms = foldl (\<lambda>sum m. sum + weight highestRarity m) 0 ms"

text \<open>
  The \<^verbatim>\<open>find\<close> whose callback adds the weight of each candidate to \<^verbatim>\<open>currentWeight\<close>
  and accepts the candidate when \<^verbatim>\<open>roll < currentWeight\<close>.
\<close>

fun findMonster :: "int \<Rightarrow> real \<Rightarrow> int \<Rightarrow> monster list \<Rightarrow> monster option" where
  "findMonster highestRarity roll currentWeight [] = None"
| "findMonster highestRarity roll currentWeight (m # ms) =
     (let currentWeight' = currentWeight + weight highestRarity m
      in if roll < real_of_int currentWeight' then Some m
         else findMonster highestRarity roll currentWeight' ms)"

text \<open>\<^verbatim>\<open>xs[0]\<close>, which is \<^verbatim>\<open>undefined\<close> for the empty array.\<close>

definition index0 :: "'a list \<Rightarrow> 'a option" where
  "index0 xs = (case xs of [] \<Rightarrow> None | a # _ \<Rightarrow> Some a)"

text \<open>
  \<^verbatim>\<open>chosenMonster\<close>, from the candidates and the value \<^verbatim>\<open>u\<close> of \<^verbatim>\<open>Math.random()\<close> that
  is scaled to \<^verbatim>\<open>roll\<close>. With no candidate \<^verbatim>\<open>highestRarity\<close> is \<^verbatim>\<open>-Infinity\<close>, the
  callbacks of \<^verbatim>\<open>reduce\<close> and \<^verbatim>\<open>find\<close> never run, and \<^verbatim>\<open>find\<close> yields \<^verbatim>\<open>undefined\<close>.
\<close>

definition chooseMonster :: "monster list \<Rightarrow> real \<Rightarrow> monster option" where
  "chooseMonster validMonsters u =
     (let found =
        (case Math_max (map rarity validMonsters) of
           None \<Rightarrow> None
         | Some highestRarity \<Rightarrow>
             let roll = u * real_of_int (totalWeight highestRarity validMonsters)
             in findMonster highestRarity roll 0 validMonsters)
      in case found of Some m \<Rightarrow> Some m | None \<Rightarrow> index0 validMonsters)"

text \<open>\<^verbatim>\<open>Math.round\<close> rounds to the nearest integer, a half towards \<open>+\<infinity>\<close>.\<close>

definition Math_round :: "real \<Rightarrow> int" where
  "Math_round v = \<lfloor>v + 1 / 2\<rfloor>"

text \<open>The \<^verbatim>\<open>monster\<close> object, from the chosen template and the value of \<^verbatim>\<open>Math.random()\<close>.\<close>

definition makeMonster :: "monster \<Rightarrow> real \<Rightarrow> monster_instance" where
  "makeMonster chosenMonster u =
     (let monster =
        \<lparr>i_abilities = m_abilities chosenMonster,
         i_aggression = m_aggression chosenMonster,
         i_behavior = m_behavior chosenMonster,
         i_description = m_description chosenMonster,
         i_intelligence = m_intelligence chosenMonster,
         i_level = Math_round
           (u * real_of_int (maxLevel chosenMonster - minLevel chosenMonster)
              + real_of_int (minLevel chosenMonster)),
         i_lore = m_lore chosenMonster,
         i_maxHealth = 0,
         i_name = m_name chosenMonster,
         i_size = m_size chosenMonster\<rparr>
      in monster\<lparr>i_maxHealth := i_level monster * baseHealth chosenMonster\<rparr>)"

definition nullable :: "string option \<Rightarrow> string" where
  "nullable v = (case v of None \<Rightarrow> ''null'' | Some b \<Rightarrow> b)"

definition currentTerrain_text :: "game_state \<Rightarrow> terrain \<Rightarrow> string" where
  "currentTerrain_text currentState ct =
     numberToString (pos_x (position (player currentState))) @ '','' @
     numberToString (pos_y (position (player currentState))) @ '': '' @
     nullable (currentBiome (world currentState)) @ '' '' @ terrain_type ct"

definition surroundingTerrain_text :: "env \<Rightarrow> game_state \<Rightarrow> string list" where
  "surroundingTerrain_text e currentState =
     map (\<lambda>t. numberToString (adj_x t) @ '','' @ numberToString (adj_y t) @ '': '' @
               adj_biomeName t @ '' '' @ terrain_type (adj_terrain t))
       (getAdjacentTerrain e (pos_x (position (player currentState)))
          (pos_y (position (player currentState))) 2)"

section \<open>The request to the text generator\<close>

text \<open>
  \<^verbatim>\<open>generateAi\<close> runs up to \<^verbatim>\<open>await fetch(...)\<close> when it is called: it pauses and issues
  the request. The rest runs when the request settles: \<^verbatim>\<open>resp.json()\<close>, \<^verbatim>\<open>resume()\<close>,
  \<^verbatim>\<open>return data.text\<close>. There is no \<^verbatim>\<open>try\<close> around either await.
\<close>

definition generateAi_start :: "env \<Rightarrow> string \<Rightarrow> sys \<Rightarrow> sys" where
  "generateAi_start e prompt s =
     emitEffect
       (Fetch \<lparr>req_url = ''/api/gen'',
               req_body = JSON_stringify e (BodyObject prompt),
               req_headers = [(''Content-Type'', ''application/json'')],
               req_method = ''POST''\<rparr>)
       (pause s)"

definition generateAi_finish :: "ai_response \<Rightarrow> sys \<Rightarrow> (js_error + string option) \<times> sys" where
  "generateAi_finish r s =
     (case r of
        NetworkFailure \<Rightarrow> (Inl TypeError, s)
      | MalformedBody \<Rightarrow> (Inl SyntaxError, s)
      | JsonNull \<Rightarrow> (Inl TypeError, resume s)
      | JsonData text \<Rightarrow> (Inr text, resume s))"

definition generateAi :: "env \<Rightarrow> ai_response \<Rightarrow> string \<Rightarrow> sys \<Rightarrow> (js_error + string option) \<times> sys" where
  "generateAi e r prompt s = generateAi_finish r (generateAi_start e prompt s)"

section \<open>checkForEncounters\<close>

text \<open>
  The part of \<^verbatim>\<open>checkForEncounters\<close> that runs synchronously in the call: everything up
  to the \<^verbatim>\<open>await\<close> inside \<^verbatim>\<open>generateAi\<close>. The promise is fulfilled when the method
  returned early, rejected when it threw (reading \<^verbatim>\<open>chosenMonster.abilities\<close> of
  \<^verbatim>\<open>undefined\<close>), and pending when the request is in flight.
\<close>

definition checkForEncounters_start :: "env \<Rightarrow> sys \<Rightarrow> promise_state \<times> sys" where
  "checkForEncounters_start e s =
     (let currentState = gstate s
      in case currentTerrain (world currentState) of
           None \<Rightarrow> (Fulfilled, s)
         | Some ct \<Rightarrow>
             let encounterChance = real_of_int (difficulty ct) / 10;
                 (u1, s1) = mathRandom e s
             in if u1 > encounterChance then (Fulfilled, s1)
                else
                  let validMonsters = validMonsters_of e currentState;
                      (u2, s2) = mathRandom e s1
                  in case chooseMonster validMonsters u2 of
                       None \<Rightarrow> (Rejected TypeError, s2)
                     | Some chosenMonster \<Rightarrow>
                         let (u3, s3) = mathRandom e s2;
                             monster = makeMonster chosenMonster u3;
                             prompt = JSON_stringify e (PromptObject
                               \<lparr>pd_currentTerrain = currentTerrain_text currentState ct,
                                pd_monster = monster,
                                pd_playerState = player currentState,
                                pd_surroundingTerrain = surroundingTerrain_text e currentState\<rparr>)
                         in (Pending, generateAi_start e prompt s3))"

definition encounterWindow :: "string option \<Rightarrow> window_data" where
  "encounterWindow encounterDescription =
     \<lparr>buttons = [\<lparr>button_label = ''Close''\<rparr>],
      content = [encounterDescription],
      title = ''Encounter!''\<rparr>"

text \<open>The rest of \<^verbatim>\<open>checkForEncounters\<close>, run when the request has settled.\<close>

definition checkForEncounters_finish :: "ai_response \<Rightarrow> sys \<Rightarrow> promise_state \<times> sys" where
  "checkForEncounters_finish r s =
     (case generateAi_finish r s of
        (Inl err, s1) \<Rightarrow> (Rejected err, s1)
      | (Inr encounterDescription, s1) \<Rightarrow>
          (Fulfilled, emit_WINDOW_OPEN (encounterWindow encounterDescription) s1))"

text \<open>A whole call, with nothing else running between the request and its answer.\<close>

definition checkForEncounters :: "env \<Rightarrow> ai_response \<Rightarrow> sys \<Rightarrow> promise_state \<times> sys" where
  "checkForEncounters e r s =
     (case checkForEncounters_start e s of
        (Pending, s1) \<Rightarrow> checkForEncounters_finish r s1
      | (p, s1) \<Rightarrow> (p, s1))"

text \<open>
  The handler of \<^verbatim>\<open>PLAYER_MOVE\<close>: \<^verbatim>\<open>checkForEncounters()\<close> is called and not awaited,
  then \<^verbatim>\<open>updatePlayerWorldInfo()\<close>, then \<^verbatim>\<open>draw()\<close>.
\<close>

definition on_PLAYER_MOVE :: "env \<Rightarrow> sys \<Rightarrow> promise_state \<times> sys" where
  "on_PLAYER_MOVE e s =
     (let (p, s1) = checkForEncounters_start e s
      in (p, draw (updatePlayerWorldInfo e s1)))"

section \<open>The render surface\<close>

text \<open>
  Class \<^verbatim>\<open>Canvas\<close>: the fields the drawing methods use, the two properties of the 2D
  context they assign, and the \<^verbatim>\<open>fillText\<close> calls made, each with the font and fill
  style assigned to the context at that moment. An optional argument that is left out
  is \<^term>\<open>None\<close>, and a template literal renders it as \<^verbatim>\<open>undefined\<close>.
\<close>

record canvas =
  cv_color :: string
  cv_fontSize :: int
  cv_font :: string
  ctx_fillStyle :: string
  ctx_font :: string
  fillText_calls :: "(string \<times> string \<times> string \<times> real \<times> real) list"

definition interpolate :: "string option \<Rightarrow> string" where
  "interpolate v = (case v of None \<Rightarrow> ''undefined'' | Some str \<Rightarrow> str)"

definition setColor :: "string \<Rightarrow> canvas \<Rightarrow> canvas" where
  "setColor c cv = cv\<lparr>cv_color := c\<rparr>"

definition setFont :: "int \<Rightarrow> string \<Rightarrow> string option \<Rightarrow> canvas \<Rightarrow> canvas" where
  "setFont sz name style cv =
     cv\<lparr>cv_font := numberToString sz @ ''px '' @ name @ '' '' @ interpolate style\<rparr>"

definition rect :: "real \<Rightarrow> real \<Rightarrow> real \<Rightarrow> real \<Rightarrow> canvas \<Rightarrow> canvas" where
  "rect x y w h cv = cv\<lparr>ctx_fillStyle := cv_color cv\<rparr>"

definition text_draw :: "string \<Rightarrow> real \<Rightarrow> real \<Rightarrow> canvas \<Rightarrow> canvas" where
  "text_draw txt x y cv =
     (let cv1 = cv\<lparr>ctx_fillStyle := cv_color cv\<rparr>;
          cv2 = cv1\<lparr>ctx_font := cv_font cv1\<rparr>
      in cv2\<lparr>fillText_calls := fillText_calls cv2 @ [(ctx_font cv2, ctx_fillStyle cv2, txt, x, y)]\<rparr>)"

text \<open>The drawing calls that do not set the font, as a command language.\<close>

datatype canvas_op = SetColor string | Rect real real real real | Text string real real

fun canvas_step :: "canvas_op \<Rightarrow> canvas \<Rightarrow> canvas" where
  "canvas_step (SetColor c) cv = setColor c cv"
| "canvas_step (Rect x y w h) cv = rect x y w h cv"
| "canvas_step (Text txt x y) cv = text_draw txt x y cv"

text \<open>The fields as the constructor leaves them.\<close>

definition newCanvas :: canvas where
  "newCanvas =
     \<lparr>cv_color = ''black'', cv_fontSize = 16, cv_font = ''16px ui-monospace'',
      ctx_fillStyle = ''#000000'', ctx_font = ''10px sans-serif'', fillText_calls = []\<rparr>"

section \<open>A small world for concrete runs\<close>

definition forest :: terrain where
  "forest = \<lparr>terrain_type = ''forest'', terrain_label = ''T'', terrain_color = ''green'',
              difficulty = 10\<rparr>"

definition meadow :: terrain where
  "meadow = \<lparr>terrain_type = ''meadow'', terrain_label = ''.'', terrain_color = ''lime'',
              difficulty = 0\<rparr>"

definition wolf :: monster where
  "wolf = \<lparr>m_abilities = [''bite''], m_aggression = ''high'', m_behavior = ''pack hunter'',
            m_description = ''a grey wolf'', m_intelligence = ''animal'', m_lore = ''none'',
            m_name = ''Wolf'', m_size = ''medium'', rarity = 1, minLevel = 1, maxLevel = 3,
            baseHealth = 10, validBiomes = []\<rparr>"

definition wyvern :: monster where
  "wyvern = \<lparr>m_abilities = [''fly'', ''sting''], m_aggression = ''high'',
              m_behavior = ''territorial'', m_description = ''a small dragon'',
              m_intelligence = ''low'', m_lore = ''none'', m_name = ''Wyvern'',
              m_size = ''large'', rarity = 5, minLevel = 4, maxLevel = 8, baseHealth = 25,
              validBiomes = [''Woods'', ''Hills'']\<rparr>"

definition sandworm :: monster where
  "sandworm = \<lparr>m_abilities = [''burrow''], m_aggression = ''low'', m_behavior = ''ambush'',
                m_description = ''a worm'', m_intelligence = ''none'', m_lore = ''none'',
                m_name = ''Sandworm'', m_size = ''huge'', rarity = 3, minLevel = 2,
                maxLevel = 2, baseHealth = 40, validBiomes = [''Desert'']\<rparr>"

text \<open>
  The cell (0, 0) is forest in the biome Woods and every other cell is meadow in the
  biome Plains. To keep the runs short the neighbourhood of a cell is cut down to its
  eastern neighbour. \<^verbatim>\<open>Math.random()\<close> yields \<open>1/2\<close>, \<open>9/10\<close>, \<open>3/4\<close> and then \<open>0\<close>. The
  serialiser is a stand-in that keeps the shape of its argument visible.
\<close>

definition exampleTerrain :: "int \<Rightarrow> int \<Rightarrow> terrain \<times> string" where
  "exampleTerrain x y = (if x = 0 \<and> y = 0 then (forest, ''Woods'') else (meadow, ''Plains''))"

definition toyStringify :: "js_object \<Rightarrow> string" where
  "toyStringify obj =
     (case obj of
        PromptObject pd \<Rightarrow>
          ''{'' @ pd_currentTerrain pd @ ''|'' @ i_name (pd_monster pd) @ ''|'' @
          numberToString (i_level (pd_monster pd)) @ ''|'' @
          numberToString (i_maxHealth (pd_monster pd)) @ ''|'' @
          concat (pd_surroundingTerrain pd) @ ''}''
      | BodyObject p \<Rightarrow> ''{prompt:'' @ p @ ''}'')"

definition exampleEnv :: env where
  "exampleEnv =
     \<lparr>getTerrain = exampleTerrain,
      getAdjacentTerrain = (\<lambda>x y r.
        [\<lparr>adj_x = x + 1, adj_y = y, adj_terrain = fst (exampleTerrain (x + 1) y),
          adj_biomeName = snd (exampleTerrain (x + 1) y)\<rparr>]),
      MONSTERS = [wolf, wyvern, sandworm],
      random = (\<lambda>n. if n = 0 then 1 / 2 else if n = 1 then 9 / 10
                     else if n = 2 then 3 / 4 else 0),
      JSON_stringify = toyStringify\<rparr>"

text \<open>The same world with a catalog that has nothing for the biome Woods.\<close>

definition desertEnv :: env where
  "desertEnv = exampleEnv\<lparr>MONSTERS := [sandworm]\<rparr>"

text \<open>The game after \<^verbatim>\<open>start()\<close> at the origin.\<close>

definition startedSys :: sys where
  "startedSys = (start exampleEnv initialSys)\<lparr>trace := []\<rparr>"

text \<open>The same game when the player has stepped to (1, 0) and the handler of \<^verbatim>\<open>PLAYER_MOVE\<close> is about to run.\<close>

definition movedSys :: sys where
  "movedSys =
     startedSys\<lparr>gstate := (gstate startedSys)
       \<lparr>player := (player (gstate startedSys))\<lparr>position := \<lparr>pos_x = 1, pos_y = 0\<rparr>\<rparr>\<rparr>\<rparr>"

text \<open>The moved player once the world info has been recomputed, at a point where the next draws are 0.\<close>

definition meadowSys :: sys where
  "meadowSys = (updatePlayerWorldInfo exampleEnv movedSys)\<lparr>trace := [], rngCount := 3\<rparr>"

section \<open>The weighted choice as the specification words it\<close>

text \<open>
  These definitions follow the words of the specification, not the code: the highest
  rarity is the maximum over the candidates, the weight of a candidate is that maximum
  minus its rarity plus one, the total weight is the sum, and the selected candidate is
  the first in list order whose cumulative weight exceeds the draw, or else the first
  candidate.
\<close>

definition spec_highestRarity :: "monster list \<Rightarrow> int" where
  "spec_highestRarity cs = Max (set (map rarity cs))"

definition spec_weight :: "monster list \<Rightarrow> monster \<Rightarrow> int" where
  "spec_weight cs m = spec_highestRarity cs - rarity m + 1"

definition spec_totalWeight :: "monster list \<Rightarrow> int" where
  "spec_totalWeight cs = sum_list (map (spec_weight cs) cs)"

text \<open>The cumulative weight of the candidates at positions \<open>0, \<dots>, k\<close>.\<close>

definition spec_cumulative :: "monster list \<Rightarrow> nat \<Rightarrow> int" where
  "spec_cumulative cs k = sum_list (map (spec_weight cs) (take (Suc k) cs))"

definition spec_select :: "monster list \<Rightarrow> real \<Rightarrow> monster" where
  "spec_select cs d =
     (case find (\<lambda>k. d < real_of_int (spec_cumulative cs k)) [0..<length cs] of
        Some k \<Rightarrow> cs ! k
      | None \<Rightarrow> cs ! 0)"

section \<open>The concrete states\<close>

lemmas run_defs =
  checkForEncounters_def checkForEncounters_start_def checkForEncounters_finish_def
  generateAi_start_def generateAi_finish_def mathRandom_def pause_def resume_def
  dispatch_def draw_def emitEffect_def merge_def emit_WINDOW_OPEN_def
  updatePlayerWorldInfo_def on_PLAYER_MOVE_def encounterWindow_def

lemmas world_defs =
  exampleEnv_def exampleTerrain_def validMonsters_of_def includes_str_def chooseMonster_def totalWeight_def
  weight_def index0_def makeMonster_def Math_round_def currentTerrain_text_def
  surroundingTerrain_text_def nullable_def numberToString_def digits.simps digit_char_def
  toyStringify_def wolf_def wyvern_def sandworm_def forest_def meadow_def
  createInitialState_def

lemma startedSys_eq:
  "startedSys =
     \<lparr>gstate = createInitialState\<lparr>world := \<lparr>currentBiome = Some ''Woods'', currentTerrain = Some forest\<rparr>\<rparr>,
      trace = [], rngCount = 0\<rparr>"
  by (simp add: startedSys_def start_def updatePlayerWorldInfo_def dispatch_def draw_def
      emitEffect_def merge_def initialSys_def createInitialState_def exampleEnv_def
      exampleTerrain_def)

lemma movedSys_eq:
  "movedSys =
     \<lparr>gstate = createInitialState
        \<lparr>player := (player createInitialState)\<lparr>position := \<lparr>pos_x = 1, pos_y = 0\<rparr>\<rparr>,
         world := \<lparr>currentBiome = Some ''Woods'', currentTerrain = Some forest\<rparr>\<rparr>,
      trace = [], rngCount = 0\<rparr>"
  by (simp add: movedSys_def startedSys_eq createInitialState_def)

lemma meadowSys_eq:
  "meadowSys =
     \<lparr>gstate = createInitialState
        \<lparr>player := (player createInitialState)\<lparr>position := \<lparr>pos_x = 1, pos_y = 0\<rparr>\<rparr>,
         world := \<lparr>currentBiome = Some ''Plains'', currentTerrain = Some meadow\<rparr>\<rparr>,
      trace = [], rngCount = 3\<rparr>"
  by (simp add: meadowSys_def movedSys_eq updatePlayerWorldInfo_def dispatch_def draw_def
      emitEffect_def merge_def exampleEnv_def exampleTerrain_def createInitialState_def)

section \<open>Input while paused\<close>

lemma isPaused_pause: "isPaused (ui (gstate (pause s)))"
  by (simp add: pause_def dispatch_def draw_def emitEffect_def merge_def)

lemma keydown_paused_id: "isPaused (ui (gstate s)) \<Longrightarrow> keydown key s = s"
  by (simp add: keydown_def)

lemma fold_keydown_paused_id: "isPaused (ui (gstate s)) \<Longrightarrow> fold keydown keys s = s"
  by (induction keys) (simp_all add: keydown_paused_id)

text \<open>
  When the encounter check has left a request in flight the game is paused, and it is
  still paused when the handler of \<^verbatim>\<open>PLAYER_MOVE\<close> has finished.
\<close>

lemma in_flight_paused:
  "fst (checkForEncounters_start e s) = Pending \<Longrightarrow>
     isPaused (ui (gstate (snd (checkForEncounters_start e s))))"
  by (simp add: checkForEncounters_start_def mathRandom_def generateAi_start_def pause_def
      dispatch_def draw_def emitEffect_def merge_def Let_def
      split: option.splits if_splits prod.splits)

lemma updatePlayerWorldInfo_ui: "ui (gstate (draw (updatePlayerWorldInfo e s))) = ui (gstate s)"
  by (simp add: updatePlayerWorldInfo_def dispatch_def draw_def emitEffect_def merge_def
      Let_def split: prod.split)

lemma on_PLAYER_MOVE_paused:
  "fst (on_PLAYER_MOVE e s) = Pending \<Longrightarrow> isPaused (ui (gstate (snd (on_PLAYER_MOVE e s))))"
proof -
  assume p: "fst (on_PLAYER_MOVE e s) = Pending"
  obtain q s1 where s1: "checkForEncounters_start e s = (q, s1)"
    by (cases "checkForEncounters_start e s")
  with p have "q = Pending"
    by (simp add: on_PLAYER_MOVE_def)
  with s1 in_flight_paused [of e s] have "isPaused (ui (gstate s1))"
    by simp
  then show ?thesis
    by (simp add: on_PLAYER_MOVE_def s1 updatePlayerWorldInfo_ui)
qed

text \<open>
  Claim C1. While \<^verbatim>\<open>ui.isPaused\<close> is true, the input handler discards every key press:
  neither the \<^verbatim>\<open>keydown\<close> listener nor \<^verbatim>\<open>handleKeyPress\<close> itself calls a player action
  or opens the help window, and the state is unchanged, for any sequence of key presses.
  In particular, once a move has put the request of an encounter in flight the flag is
  set, and until the resume is dispatched every key press is discarded.
\<close>

theorem C1_paused_input_discarded:
  "(isPaused (ui (gstate s)) \<longrightarrow>
      keydown key s = s \<and> handleKeyPress key s = s \<and> fold keydown keys s = s)
   \<and> (fst (on_PLAYER_MOVE e s) = Pending \<longrightarrow>
        isPaused (ui (gstate (snd (on_PLAYER_MOVE e s))))
        \<and> fold keydown keys (snd (on_PLAYER_MOVE e s)) = snd (on_PLAYER_MOVE e s))"
  by (simp add: keydown_paused_id fold_keydown_paused_id handleKeyPress_def
      on_PLAYER_MOVE_paused)

lemma moved_pending: "fst (on_PLAYER_MOVE exampleEnv movedSys) = Pending"
  by (simp add: movedSys_eq run_defs world_defs)

theorem C1_paused_input_discarded_witness:
  "isPaused (ui (gstate (pause initialSys)))
   \<and> keydown ''ArrowLeft'' (pause initialSys) = pause initialSys
   \<and> handleKeyPress ''h'' (pause initialSys) = pause initialSys
   \<and> fold keydown [''ArrowUp'', ''r'', ''i'', ''s'', ''Escape''] (pause initialSys) = pause initialSys
   \<and> fst (on_PLAYER_MOVE exampleEnv movedSys) = Pending
   \<and> isPaused (ui (gstate (snd (on_PLAYER_MOVE exampleEnv movedSys))))
   \<and> fold keydown [''ArrowRight'', ''s'', ''h''] (snd (on_PLAYER_MOVE exampleEnv movedSys))
       = snd (on_PLAYER_MOVE exampleEnv movedSys)
   \<and> trace (keydown ''ArrowLeft'' initialSys) = [PlayerCall (Move (-1) 0)]"
proof -
  have p: "isPaused (ui (gstate (pause initialSys)))"
    by (rule isPaused_pause)
  have "trace (keydown ''ArrowLeft'' initialSys) = [PlayerCall (Move (-1) 0)]"
    by (simp add: keydown_def handleKeyPress_def initialSys_def createInitialState_def
        emitEffect_def)
  with p moved_pending
    C1_paused_input_discarded [of "pause initialSys" "''ArrowLeft''" "[]" exampleEnv]
    C1_paused_input_discarded [of "pause initialSys" "''h''" "[''ArrowUp'', ''r'', ''i'', ''s'', ''Escape'']" exampleEnv]
    C1_paused_input_discarded [of movedSys "''h''" "[''ArrowRight'', ''s'', ''h'']" exampleEnv]
  show ?thesis
    by simp
qed

section \<open>Weighted choice of the monster\<close>

lemma find_map_option: "find P (map f xs) = map_option f (find (P \<circ> f) xs)"
  by (induction xs) simp_all

lemma Math_max_Max: "vs \<noteq> [] \<Longrightarrow> Math_max vs = Some (Max (set vs))"
  by (cases vs) (simp_all add: Max.set_eq_fold [symmetric])

lemma foldl_weight_sum:
  "foldl (\<lambda>sum m. sum + f m) (a::int) ms = a + sum_list (map f ms)"
  by (induction ms arbitrary: a) simp_all

lemma totalWeight_sum: "totalWeight h ms = sum_list (map (weight h) ms)"
  by (simp add: totalWeight_def foldl_weight_sum)

lemma find_upt_Suc:
  "find P [0..<Suc n] = (if P 0 then Some 0 else map_option Suc (find (P \<circ> Suc) [0..<n]))"
proof -
  have "[0..<Suc n] = 0 # map Suc [0..<n]"
    by (simp add: upt_conv_Cons map_Suc_upt del: upt_Suc)
  then show ?thesis
    by (simp add: find_map_option del: upt_Suc)
qed

lemma findMonster_index:
  "findMonster h roll c ms =
     map_option (\<lambda>k. ms ! k)
       (find (\<lambda>k. roll < real_of_int (c + sum_list (map (weight h) (take (Suc k) ms))))
          [0..<length ms])"
proof (induction ms arbitrary: c)
  case Nil
  show ?case by simp
next
  case (Cons m ms)
  show ?case
    by (simp add: Cons.IH find_upt_Suc Let_def o_def option.map_comp add.assoc del: upt_Suc)
qed

lemma weight_ge_1: "m \<in> set cs \<Longrightarrow> 1 \<le> spec_weight cs m"
  by (simp add: spec_weight_def spec_highestRarity_def)

lemma spec_totalWeight_pos: "cs \<noteq> [] \<Longrightarrow> 1 \<le> spec_totalWeight cs"
proof -
  assume ne: "cs \<noteq> []"
  have "int (length cs) \<le> sum_list (map (spec_weight cs) cs)"
    using sum_list_mono [of cs "\<lambda>_. 1" "spec_weight cs"] weight_ge_1 [of _ cs]
    by (simp add: sum_list_triv)
  moreover have "1 \<le> int (length cs)"
    using ne by (cases cs) simp_all
  ultimately show ?thesis
    by (simp add: spec_totalWeight_def)
qed

lemma in_range_matches:
  assumes "cs \<noteq> []" "0 \<le> u" "u < 1"
  shows "\<exists>k < length cs. u * real_of_int (spec_totalWeight cs) < real_of_int (spec_cumulative cs k)"
proof -
  have T: "spec_cumulative cs (length cs - 1) = spec_totalWeight cs"
    using assms(1) by (simp add: spec_cumulative_def spec_totalWeight_def)
  have "0 < real_of_int (spec_totalWeight cs)"
    using spec_totalWeight_pos [OF assms(1)] by simp
  then have "u * real_of_int (spec_totalWeight cs) < real_of_int (spec_totalWeight cs)"
    using assms(3) by simp
  with T assms(1) show ?thesis
    by (intro exI [of _ "length cs - 1"]) simp
qed

text \<open>
  Claim C5. For a non-empty list of candidates the code computes \<^verbatim>\<open>highestRarity\<close> as
  the maximum rarity, gives each candidate the weight \<^verbatim>\<open>highestRarity - rarity + 1\<close>,
  which is at least 1, sums these to \<^verbatim>\<open>totalWeight\<close>, and for the draw \<open>u\<close> scaled by
  the total weight chooses the first candidate in list order whose cumulative weight
  exceeds the scaled draw, and the first candidate when there is none. For \<open>u\<close> in
  \<open>[0, 1)\<close> some candidate always matches. The list is the catalog filtered in its own
  order.
\<close>

theorem C5_weighted_choice:
  "validMonsters \<noteq> [] \<Longrightarrow>
     Math_max (map rarity validMonsters) = Some (spec_highestRarity validMonsters)
   \<and> (\<forall>m \<in> set validMonsters.
         weight (spec_highestRarity validMonsters) m = spec_weight validMonsters m
         \<and> 1 \<le> spec_weight validMonsters m)
   \<and> totalWeight (spec_highestRarity validMonsters) validMonsters = spec_totalWeight validMonsters
   \<and> chooseMonster validMonsters u =
       Some (spec_select validMonsters (u * real_of_int (spec_totalWeight validMonsters)))
   \<and> (0 \<le> u \<and> u < 1 \<longrightarrow>
        (\<exists>k < length validMonsters.
           u * real_of_int (spec_totalWeight validMonsters)
             < real_of_int (spec_cumulative validMonsters k)))"
proof -
  assume ne: "validMonsters \<noteq> []"
  let ?h = "spec_highestRarity validMonsters"
  have mx: "Math_max (map rarity validMonsters) = Some ?h"
    using ne by (simp add: Math_max_Max spec_highestRarity_def)
  have wt: "weight ?h = spec_weight validMonsters"
    by (rule ext) (simp add: weight_def spec_weight_def)
  have tw: "totalWeight ?h validMonsters = spec_totalWeight validMonsters"
    by (simp add: totalWeight_sum wt spec_totalWeight_def)
  have hd0: "index0 validMonsters = Some (validMonsters ! 0)"
    using ne by (cases validMonsters) (simp_all add: index0_def)
  have ch: "chooseMonster validMonsters u =
       Some (spec_select validMonsters (u * real_of_int (spec_totalWeight validMonsters)))"
    by (simp add: chooseMonster_def mx tw findMonster_index wt spec_select_def
        spec_cumulative_def hd0 split: option.split)
  from mx wt tw ch weight_ge_1 in_range_matches [OF ne] show ?thesis
    by simp
qed

theorem C5_weighted_choice_witness:
  "[wolf, wyvern] \<noteq> []
   \<and> spec_highestRarity [wolf, wyvern] = 5
   \<and> map (spec_weight [wolf, wyvern]) [wolf, wyvern] = [5, 1]
   \<and> wolf \<in> set [wolf, wyvern] \<and> 1 \<le> spec_weight [wolf, wyvern] wolf
   \<and> totalWeight 5 [wolf, wyvern] = 6
   \<and> chooseMonster [wolf, wyvern] (1 / 2) = Some wolf
   \<and> chooseMonster [wolf, wyvern] (9 / 10) = Some wyvern
   \<and> (0 \<le> (9 / 10 :: real) \<and> (9 / 10 :: real) < 1)
   \<and> (\<exists>k < length [wolf, wyvern].
         9 / 10 * real_of_int (spec_totalWeight [wolf, wyvern])
           < real_of_int (spec_cumulative [wolf, wyvern] k))"
proof -
  have hr: "spec_highestRarity [wolf, wyvern] = 5"
    by (simp add: spec_highestRarity_def wolf_def wyvern_def)
  have w: "spec_weight [wolf, wyvern] wolf = 5" "spec_weight [wolf, wyvern] wyvern = 1"
    by (simp_all add: spec_weight_def hr) (simp_all add: wolf_def wyvern_def)
  have t: "spec_totalWeight [wolf, wyvern] = 6"
    by (simp add: spec_totalWeight_def w)
  have c: "spec_cumulative [wolf, wyvern] 0 = 5" "spec_cumulative [wolf, wyvern] (Suc 0) = 6"
    by (simp_all add: spec_cumulative_def w)
  have s1: "spec_select [wolf, wyvern] (1 / 2 * real_of_int 6) = wolf"
    by (simp add: spec_select_def c upt_rec [of 0])
  have s2: "spec_select [wolf, wyvern] (9 / 10 * real_of_int 6) = wyvern"
    by (simp add: spec_select_def c upt_rec [of 0] upt_rec [of 1])
  show ?thesis
    using C5_weighted_choice [of "[wolf, wyvern]" "1 / 2"]
      C5_weighted_choice [of "[wolf, wyvern]" "9 / 10"] hr w t s1 s2
    by simp
qed

section \<open>Level and health of the instance\<close>

lemma Math_round_bounds:
  "real_of_int lo \<le> v \<Longrightarrow> v \<le> real_of_int hi \<Longrightarrow> lo \<le> Math_round v \<and> Math_round v \<le> hi"
  unfolding Math_round_def by (simp add: le_floor_iff floor_le_iff)

lemma Math_round_int: "Math_round (real_of_int z) = z"
  unfolding Math_round_def by linarith

lemma Math_round_half_below: "Math_round (real_of_int z - 1 / 2) = z"
  unfolding Math_round_def by simp

lemma level_value:
  "i_level (makeMonster c u) =
     Math_round (u * real_of_int (maxLevel c - minLevel c) + real_of_int (minLevel c))"
  by (simp add: makeMonster_def)

lemma Math_round_window:
  "real_of_int (Math_round v) - 1 / 2 \<le> v \<and> v < real_of_int (Math_round v) + 1 / 2"
  unfolding Math_round_def by linarith

lemma Math_round_nearest:
  "\<bar>real_of_int (Math_round v) - v\<bar> \<le> \<bar>real_of_int k - v\<bar>"
proof -
  let ?L = "Math_round v"
  note w = Math_round_window [of v]
  consider "k < ?L" | "k = ?L" | "?L < k"
    by linarith
  then show ?thesis
  proof cases
    case 1
    then have "real_of_int k \<le> real_of_int ?L - 1"
      by linarith
    with w show ?thesis
      by linarith
  next
    case 2
    then show ?thesis
      by simp
  next
    case 3
    then have "real_of_int ?L + 1 \<le> real_of_int k"
      by linarith
    with w show ?thesis
      by linarith
  qed
qed

lemma Math_round_half_up: "v = real_of_int k + 1 / 2 \<Longrightarrow> Math_round v = k + 1"
  unfolding Math_round_def by simp

text \<open>
  Claim C6. For a template with \<^verbatim>\<open>minLevel \<le> maxLevel\<close> and a value \<open>u\<close> of
  \<^verbatim>\<open>Math.random()\<close> in \<open>[0, 1)\<close>, the level of the instance is the point
  \<^verbatim>\<open>u * (maxLevel - minLevel) + minLevel\<close> of the interval rounded to the nearest integer:
  no integer is closer to that point, the point lies less than a half above the level
  and at most a half below it, and a point halfway between two integers gives the
  upper one. The level is between \<^verbatim>\<open>minLevel\<close> and \<^verbatim>\<open>maxLevel\<close> inclusive, both ends of
  the interval are reached by some draw, and \<^verbatim>\<open>maxHealth\<close> is the level times
  \<^verbatim>\<open>baseHealth\<close>.
\<close>

theorem C6_level_bounds:
  assumes "minLevel c \<le> maxLevel c" and "0 \<le> u" and "u < 1"
  shows "minLevel c \<le> i_level (makeMonster c u)
       \<and> i_level (makeMonster c u) \<le> maxLevel c
       \<and> i_maxHealth (makeMonster c u) = i_level (makeMonster c u) * baseHealth c
       \<and> (\<exists>u0. 0 \<le> u0 \<and> u0 < 1 \<and> i_level (makeMonster c u0) = minLevel c)
       \<and> (\<exists>u1. 0 \<le> u1 \<and> u1 < 1 \<and> i_level (makeMonster c u1) = maxLevel c)
       \<and> (let point = u * real_of_int (maxLevel c - minLevel c) + real_of_int (minLevel c);
               level = i_level (makeMonster c u)
           in (\<forall>k. \<bar>real_of_int level - point\<bar> \<le> \<bar>real_of_int k - point\<bar>)
            \<and> real_of_int level - 1 / 2 \<le> point
            \<and> point < real_of_int level + 1 / 2
            \<and> (\<forall>k. point = real_of_int k + 1 / 2 \<longrightarrow> level = k + 1))"
proof -
  let ?d = "real_of_int (maxLevel c - minLevel c)"
  have d0: "0 \<le> ?d"
    using assms(1) by simp
  have "u * ?d \<le> 1 * ?d"
    using assms(3) d0 by (intro mult_right_mono) simp_all
  then have up: "u * ?d + real_of_int (minLevel c) \<le> real_of_int (maxLevel c)"
    by simp
  have "0 \<le> u * ?d"
    using assms(2) d0 by simp
  then have lo: "real_of_int (minLevel c) \<le> u * ?d + real_of_int (minLevel c)"
    by simp
  have bounds: "minLevel c \<le> i_level (makeMonster c u) \<and> i_level (makeMonster c u) \<le> maxLevel c"
    using Math_round_bounds [OF lo up] by (simp add: level_value)
  have health: "i_maxHealth (makeMonster c u) = i_level (makeMonster c u) * baseHealth c"
    by (simp add: makeMonster_def)
  have low: "i_level (makeMonster c 0) = minLevel c"
    by (simp add: level_value Math_round_int)
  have high: "\<exists>u1. 0 \<le> u1 \<and> u1 < 1 \<and> i_level (makeMonster c u1) = maxLevel c"
  proof (cases "minLevel c = maxLevel c")
    case True
    with low show ?thesis
      by (intro exI [of _ 0]) simp
  next
    case False
    with assms(1) have d1: "1 \<le> ?d"
      by simp
    let ?u = "1 - 1 / (2 * ?d)"
    have "?u * ?d = ?d - 1 / 2"
      using d1 by (simp add: field_simps)
    then have "?u * ?d + real_of_int (minLevel c) = real_of_int (maxLevel c) - 1 / 2"
      by simp
    then have "i_level (makeMonster c ?u) = maxLevel c"
      by (simp only: level_value Math_round_half_below)
    moreover have "0 \<le> ?u" "?u < 1"
      using d1 by (simp_all add: field_simps)
    ultimately show ?thesis
      by blast
  qed
  have lowx: "\<exists>u0. 0 \<le> u0 \<and> u0 < 1 \<and> i_level (makeMonster c u0) = minLevel c"
    using low by (intro exI [of _ 0]) simp
  let ?p = "u * ?d + real_of_int (minLevel c)"
  let ?l = "i_level (makeMonster c u)"
  have l: "?l = Math_round ?p"
    by (rule level_value)
  have near: "\<forall>k. \<bar>real_of_int ?l - ?p\<bar> \<le> \<bar>real_of_int k - ?p\<bar>"
    unfolding l by (intro allI Math_round_nearest)
  have win: "real_of_int ?l - 1 / 2 \<le> ?p" "?p < real_of_int ?l + 1 / 2"
    unfolding l using Math_round_window [of ?p] by simp_all
  have half: "\<forall>k. ?p = real_of_int k + 1 / 2 \<longrightarrow> ?l = k + 1"
    unfolding l by (intro allI impI Math_round_half_up)
  have rounding: "let point = ?p; level = ?l
           in (\<forall>k. \<bar>real_of_int level - point\<bar> \<le> \<bar>real_of_int k - point\<bar>)
            \<and> real_of_int level - 1 / 2 \<le> point
            \<and> point < real_of_int level + 1 / 2
            \<and> (\<forall>k. point = real_of_int k + 1 / 2 \<longrightarrow> level = k + 1)"
    unfolding Let_def using near win half by (intro conjI)
  from bounds health lowx high rounding show ?thesis
    by (intro conjI) (simp, simp, assumption+)
qed

text \<open>
  The wyvern has levels 4 to 8. The draw \<open>1/10\<close> gives the point \<open>4.4\<close> and the level
  4, the nearer integer and not the next one up; the draw \<open>3/8\<close> gives the midpoint
  \<open>5.5\<close> and the level 6; the draw \<open>3/4\<close> gives the level 7.
\<close>

theorem C6_level_bounds_witness:
  "minLevel wyvern \<le> maxLevel wyvern
   \<and> minLevel wyvern = 4 \<and> maxLevel wyvern = 8 \<and> baseHealth wyvern = 25
   \<and> (0::real) \<le> 1 / 10 \<and> (1 / 10 :: real) < 1
   \<and> 1 / 10 * real_of_int (maxLevel wyvern - minLevel wyvern) + real_of_int (minLevel wyvern) = 22 / 5
   \<and> i_level (makeMonster wyvern (1 / 10)) = 4
   \<and> i_maxHealth (makeMonster wyvern (1 / 10)) = 100
   \<and> \<bar>real_of_int (i_level (makeMonster wyvern (1 / 10))) - 22 / 5\<bar> \<le> \<bar>real_of_int 5 - 22 / 5\<bar>
   \<and> (0::real) \<le> 3 / 8 \<and> (3 / 8 :: real) < 1
   \<and> 3 / 8 * real_of_int (maxLevel wyvern - minLevel wyvern) + real_of_int (minLevel wyvern)
       = real_of_int 5 + 1 / 2
   \<and> i_level (makeMonster wyvern (3 / 8)) = 6
   \<and> i_maxHealth (makeMonster wyvern (3 / 8)) = 150
   \<and> i_level (makeMonster wyvern (3 / 4)) = 7
   \<and> i_maxHealth (makeMonster wyvern (3 / 4)) = 175
   \<and> 4 \<le> i_level (makeMonster wyvern (3 / 4)) \<and> i_level (makeMonster wyvern (3 / 4)) \<le> 8"
proof -
  have m: "minLevel wyvern = 4" "maxLevel wyvern = 8" "baseHealth wyvern = 25"
    by (simp_all add: wyvern_def)
  have mid: "3 / 8 * real_of_int (maxLevel wyvern - minLevel wyvern) + real_of_int (minLevel wyvern)
       = real_of_int 5 + 1 / 2"
    by (simp add: m)
  have l6: "i_level (makeMonster wyvern (3 / 8)) = 6"
    using C6_level_bounds [of wyvern "3 / 8"] mid by (simp add: m Let_def)
  have l4: "i_level (makeMonster wyvern (1 / 10)) = 4"
    by (simp add: level_value m Math_round_def)
  have l7: "i_level (makeMonster wyvern (3 / 4)) = 7"
    by (simp add: level_value m Math_round_def)
  show ?thesis
    using C6_level_bounds [of wyvern "1 / 10"] C6_level_bounds [of wyvern "3 / 8"]
      C6_level_bounds [of wyvern "3 / 4"] m l4 l6 l7
    by (simp add: Let_def)
qed

section \<open>No terrain, no encounter\<close>

text \<open>
  Claim C7. When no terrain is observed (\<^verbatim>\<open>world.currentTerrain\<close> is \<^verbatim>\<open>null\<close>),
  \<^verbatim>\<open>checkForEncounters\<close> returns at once: the promise is fulfilled and the system is
  exactly as before, so no random value was drawn, nothing was dispatched or emitted
  and no request was issued.
\<close>

theorem C7_no_terrain_no_encounter:
  "currentTerrain (world (gstate s)) = None \<Longrightarrow>
     checkForEncounters_start e s = (Fulfilled, s) \<and> checkForEncounters e r s = (Fulfilled, s)"
  by (simp add: checkForEncounters_def checkForEncounters_start_def)

theorem C7_no_terrain_no_encounter_witness:
  "currentTerrain (world (gstate initialSys)) = None
   \<and> checkForEncounters exampleEnv (JsonData (Some ''text'')) initialSys = (Fulfilled, initialSys)
   \<and> checkForEncounters_start exampleEnv initialSys = (Fulfilled, initialSys)
   \<and> trace initialSys = [] \<and> rngCount initialSys = 0"
proof -
  have n: "currentTerrain (world (gstate initialSys)) = None"
    by (simp add: initialSys_def createInitialState_def)
  show ?thesis
    using n C7_no_terrain_no_encounter [OF n, of exampleEnv "JsonData (Some ''text'')"]
    by (simp add: initialSys_def)
qed

section \<open>The trigger\<close>

text \<open>
  The call returns early exactly when the draw is greater than \<^verbatim>\<open>difficulty / 10\<close>; a
  draw equal to that value goes on to the encounter.
\<close>

lemma encounter_gate:
  "currentTerrain (world (gstate s)) = Some ct \<Longrightarrow>
     (fst (checkForEncounters_start e s) = Fulfilled)
       = (random e (rngCount s) > real_of_int (difficulty ct) / 10)"
  by (simp add: checkForEncounters_start_def mathRandom_def Let_def split: option.split)

lemma encounter_gate_lt:
  "currentTerrain (world (gstate s)) = Some ct \<Longrightarrow>
   random e (rngCount s) < real_of_int (difficulty ct) / 10 \<Longrightarrow>
     fst (checkForEncounters_start e s) \<noteq> Fulfilled"
  by (simp add: encounter_gate)

lemma encounter_gate_full:
  "currentTerrain (world (gstate s)) = Some ct \<Longrightarrow> difficulty ct = 10 \<Longrightarrow>
   random e (rngCount s) < 1 \<Longrightarrow> fst (checkForEncounters_start e s) \<noteq> Fulfilled"
  by (simp add: encounter_gate)

text \<open>
  Claim C2, which says that an encounter is triggered iff the draw is less than
  \<^verbatim>\<open>difficulty / 10\<close> and never on difficulty 0. The code at difficulty 0 and draw 0, a
  value \<^verbatim>\<open>Math.random()\<close> can return: \<^verbatim>\<open>0 > 0\<close> is false, the method does not return,
  and the encounter runs up to its request.
\<close>

theorem C2_zero_difficulty_triggers:
  "currentTerrain (world (gstate meadowSys)) = Some meadow
   \<and> difficulty meadow = 0
   \<and> random exampleEnv (rngCount meadowSys) = 0
   \<and> fst (checkForEncounters_start exampleEnv meadowSys) = Pending
   \<and> trace (snd (checkForEncounters_start exampleEnv meadowSys)) =
       [Dispatch (Ui_isPaused True), Redraw,
        Fetch \<lparr>req_url = ''/api/gen'',
                req_body = ''{prompt:{1,0: Plains meadow|Wolf|1|10|2,0: Plains meadow}}'',
                req_headers = [(''Content-Type'', ''application/json'')],
                req_method = ''POST''\<rparr>]"
  by (simp add: meadowSys_eq run_defs world_defs)

section \<open>No candidate for the biome\<close>

lemma chooseMonster_None: "(chooseMonster ms u = None) = (ms = [])"
  by (cases ms) (simp_all add: chooseMonster_def index0_def Let_def split: option.split)

lemma empty_candidates_reject:
  "currentTerrain (world (gstate s)) = Some ct \<Longrightarrow>
   \<not> random e (rngCount s) > real_of_int (difficulty ct) / 10 \<Longrightarrow>
   validMonsters_of e (gstate s) = [] \<Longrightarrow>
     checkForEncounters_start e s = (Rejected TypeError, s\<lparr>rngCount := rngCount s + 2\<rparr>)"
  by (simp add: checkForEncounters_start_def mathRandom_def Let_def chooseMonster_def index0_def)

text \<open>
  Claim C3, which says that an empty candidate list makes \<^verbatim>\<open>checkForEncounters\<close> skip
  the encounter without raising. The code on a catalog with no monster for the current
  biome: both random values are drawn, \<^verbatim>\<open>chosenMonster\<close> is \<^verbatim>\<open>undefined\<close>, and reading
  \<^verbatim>\<open>chosenMonster.abilities\<close> throws a \<^verbatim>\<open>TypeError\<close>, which rejects the promise. Nothing
  is dispatched or emitted before that.
\<close>

theorem C3_empty_candidates_throw:
  "currentTerrain (world (gstate startedSys)) = Some forest
   \<and> validMonsters_of desertEnv (gstate startedSys) = []
   \<and> checkForEncounters_start desertEnv startedSys
       = (Rejected TypeError, startedSys\<lparr>rngCount := 2\<rparr>)
   \<and> checkForEncounters desertEnv (JsonData (Some ''text'')) startedSys
       = (Rejected TypeError, startedSys\<lparr>rngCount := 2\<rparr>)"
  by (simp add: startedSys_eq desertEnv_def run_defs world_defs)

section \<open>A failing request\<close>

lemma generateAi_start_trace:
  "trace (generateAi_start e prompt s) =
     trace s @ [Dispatch (Ui_isPaused True), Redraw,
                Fetch \<lparr>req_url = ''/api/gen'', req_body = JSON_stringify e (BodyObject prompt),
                        req_headers = [(''Content-Type'', ''application/json'')],
                        req_method = ''POST''\<rparr>]"
  by (simp add: generateAi_start_def pause_def dispatch_def draw_def emitEffect_def)

lemma generateAi_start_paused: "isPaused (ui (gstate (generateAi_start e prompt s)))"
  by (simp add: generateAi_start_def pause_def dispatch_def draw_def emitEffect_def merge_def)

lemma resume_not_paused: "\<not> isPaused (ui (gstate (resume s)))"
  by (simp add: resume_def dispatch_def draw_def emitEffect_def merge_def)

lemma resume_trace: "trace (resume s) = trace s @ [Dispatch (Ui_isPaused False), Redraw, Redraw]"
  by (simp add: resume_def dispatch_def draw_def emitEffect_def)

text \<open>
  Claim C4, as amended. A failure of the external call is not caught in \<^verbatim>\<open>generateAi\<close>:
  when \<^verbatim>\<open>fetch\<close> rejects or the body is not JSON, the promise of \<^verbatim>\<open>generateAi\<close> rejects
  with the system as the pause and the request left it, so \<^verbatim>\<open>ui.isPaused\<close> is still
  true and no resume has been dispatched, and \<^verbatim>\<open>checkForEncounters\<close> rejects in turn
  without emitting \<^verbatim>\<open>WINDOW_OPEN\<close>. The resume is dispatched only when the body parses
  as JSON, and the description is then the \<^verbatim>\<open>text\<close> property as it is, with no fallback.
\<close>

theorem C4_failure_not_caught:
  "generateAi e NetworkFailure prompt s = (Inl TypeError, generateAi_start e prompt s)
   \<and> generateAi e MalformedBody prompt s = (Inl SyntaxError, generateAi_start e prompt s)
   \<and> isPaused (ui (gstate (generateAi_start e prompt s)))
   \<and> trace (generateAi_start e prompt s) =
       trace s @ [Dispatch (Ui_isPaused True), Redraw,
                  Fetch \<lparr>req_url = ''/api/gen'', req_body = JSON_stringify e (BodyObject prompt),
                          req_headers = [(''Content-Type'', ''application/json'')],
                          req_method = ''POST''\<rparr>]
   \<and> (checkForEncounters_start e s = (Pending, s1) \<longrightarrow>
        checkForEncounters e NetworkFailure s = (Rejected TypeError, s1)
        \<and> checkForEncounters e MalformedBody s = (Rejected SyntaxError, s1))
   \<and> fst (generateAi e (JsonData d) prompt s) = Inr d
   \<and> \<not> isPaused (ui (gstate (snd (generateAi e (JsonData d) prompt s))))"
  by (simp add: generateAi_def generateAi_finish_def generateAi_start_trace
      generateAi_start_paused resume_not_paused checkForEncounters_def
      checkForEncounters_finish_def)

lemma started_pending:
  "checkForEncounters_start exampleEnv startedSys =
     (Pending, snd (checkForEncounters_start exampleEnv startedSys))"
  by (simp add: startedSys_eq run_defs world_defs)

theorem C4_failure_not_caught_witness:
  "checkForEncounters_start exampleEnv startedSys
     = (Pending, snd (checkForEncounters_start exampleEnv startedSys))
   \<and> checkForEncounters exampleEnv NetworkFailure startedSys
     = (Rejected TypeError, snd (checkForEncounters_start exampleEnv startedSys))
   \<and> checkForEncounters exampleEnv MalformedBody startedSys
     = (Rejected SyntaxError, snd (checkForEncounters_start exampleEnv startedSys))"
  using C4_failure_not_caught [of exampleEnv "[]" startedSys
      "snd (checkForEncounters_start exampleEnv startedSys)" None] started_pending
  by simp

text \<open>
  The claim as it was stated fails on a network failure during a triggered encounter:
  the promise is rejected, the game is left paused, and the trace ends with the request.
\<close>

theorem C4_network_failure_counterexample:
  "fst (checkForEncounters exampleEnv NetworkFailure startedSys) = Rejected TypeError
   \<and> isPaused (ui (gstate (snd (checkForEncounters exampleEnv NetworkFailure startedSys))))
   \<and> trace (snd (checkForEncounters exampleEnv NetworkFailure startedSys)) =
       [Dispatch (Ui_isPaused True), Redraw,
        Fetch \<lparr>req_url = ''/api/gen'',
                req_body = ''{prompt:{0,0: Woods forest|Wyvern|7|175|1,0: Plains meadow}}'',
                req_headers = [(''Content-Type'', ''application/json'')],
                req_method = ''POST''\<rparr>]"
  by (simp add: startedSys_eq run_defs world_defs)

section \<open>The order of the steps on a move\<close>

text \<open>
  The handler of \<^verbatim>\<open>PLAYER_MOVE\<close> runs the synchronous part of the encounter check on
  the state as it finds it, and dispatches the world info of the player's position only
  afterwards.
\<close>

lemma checkForEncounters_start_player:
  "player (gstate (snd (checkForEncounters_start e s))) = player (gstate s)"
  by (simp add: checkForEncounters_start_def mathRandom_def generateAi_start_def pause_def
      dispatch_def draw_def emitEffect_def merge_def Let_def split: option.split)

lemma on_PLAYER_MOVE_order:
  "fst (on_PLAYER_MOVE e s) = fst (checkForEncounters_start e s)
   \<and> trace (snd (on_PLAYER_MOVE e s)) =
       trace (snd (checkForEncounters_start e s)) @
       [Dispatch (World_info
          (snd (getTerrain e (pos_x (position (player (gstate s))))
                  (pos_y (position (player (gstate s))))))
          (fst (getTerrain e (pos_x (position (player (gstate s))))
                  (pos_y (position (player (gstate s))))))),
        Redraw, Redraw]"
proof -
  obtain p s1 where s1: "checkForEncounters_start e s = (p, s1)"
    by (cases "checkForEncounters_start e s")
  have "player (gstate s1) = player (gstate s)"
    using checkForEncounters_start_player [of e s] s1 by simp
  then show ?thesis
    by (simp add: on_PLAYER_MOVE_def s1 updatePlayerWorldInfo_def dispatch_def draw_def
        emitEffect_def Let_def split: prod.split)
qed

text \<open>
  Claim C8, which says that on a move the world info is recomputed before the encounter
  check reads the terrain. The code when the player has stepped from the forest cell
  (0, 0), difficulty 10, to the meadow cell (1, 0), difficulty 0, and the draw is
  \<open>1/2\<close>: the check still reads the forest of the cell just left, so the encounter is
  triggered and the prompt pairs the new coordinates with the old biome and terrain;
  the world info of (1, 0) is dispatched after the request.
\<close>

theorem C8_stale_terrain:
  "position (player (gstate movedSys)) = \<lparr>pos_x = 1, pos_y = 0\<rparr>
   \<and> getTerrain exampleEnv 1 0 = (meadow, ''Plains'')
   \<and> difficulty meadow = 0
   \<and> random exampleEnv (rngCount movedSys) = 1 / 2
   \<and> currentTerrain (world (gstate movedSys)) = Some forest
   \<and> fst (on_PLAYER_MOVE exampleEnv movedSys) = Pending
   \<and> trace (snd (on_PLAYER_MOVE exampleEnv movedSys)) =
       [Dispatch (Ui_isPaused True), Redraw,
        Fetch \<lparr>req_url = ''/api/gen'',
                req_body = ''{prompt:{1,0: Woods forest|Wyvern|7|175|2,0: Plains meadow}}'',
                req_headers = [(''Content-Type'', ''application/json'')],
                req_method = ''POST''\<rparr>,
        Dispatch (World_info ''Plains'' meadow), Redraw, Redraw]"
  by (simp add: movedSys_eq run_defs world_defs)

section \<open>The sequence of an encounter\<close>

text \<open>
  Claim C9. For every triggered encounter, that is a call with terrain observed, a draw
  that does not exceed the chance and a candidate to choose, the synchronous part
  dispatches the pause and then issues one request: a POST to \<^verbatim>\<open>/api/gen\<close> whose body is
  the serialisation of the object holding \<^verbatim>\<open>prompt\<close>, itself the serialisation of
  \<^verbatim>\<open>{currentTerrain, monster, playerState, surroundingTerrain}\<close>. When the answer has
  arrived the resume is dispatched and then \<^verbatim>\<open>WINDOW_OPEN\<close> is emitted with the generated
  text as its content; the handler of that event pauses again for the window.
\<close>

theorem C9_encounter_sequence:
  "currentTerrain (world (gstate s)) = Some ct \<Longrightarrow>
   \<not> random e (rngCount s) > real_of_int (difficulty ct) / 10 \<Longrightarrow>
   validMonsters_of e (gstate s) \<noteq> [] \<Longrightarrow>
   \<exists>chosenMonster.
     chooseMonster (validMonsters_of e (gstate s)) (random e (rngCount s + 1)) = Some chosenMonster
     \<and> (let prompt = JSON_stringify e (PromptObject
              \<lparr>pd_currentTerrain = currentTerrain_text (gstate s) ct,
               pd_monster = makeMonster chosenMonster (random e (rngCount s + 2)),
               pd_playerState = player (gstate s),
               pd_surroundingTerrain = surroundingTerrain_text e (gstate s)\<rparr>);
             req = \<lparr>req_url = ''/api/gen'', req_body = JSON_stringify e (BodyObject prompt),
                    req_headers = [(''Content-Type'', ''application/json'')],
                    req_method = ''POST''\<rparr>
         in fst (checkForEncounters_start e s) = Pending
          \<and> trace (snd (checkForEncounters_start e s)) =
              trace s @ [Dispatch (Ui_isPaused True), Redraw, Fetch req]
          \<and> fst (checkForEncounters e (JsonData description) s) = Fulfilled
          \<and> trace (snd (checkForEncounters e (JsonData description) s)) =
              trace s @ [Dispatch (Ui_isPaused True), Redraw, Fetch req,
                         Dispatch (Ui_isPaused False), Redraw, Redraw,
                         Emit_WINDOW_OPEN (encounterWindow description),
                         Dispatch (Ui_isPaused True), Redraw,
                         NewWindow (encounterWindow description)]
          \<and> content (encounterWindow description) = [description])"
proof -
  assume ct: "currentTerrain (world (gstate s)) = Some ct"
    and trig: "\<not> random e (rngCount s) > real_of_int (difficulty ct) / 10"
    and ne: "validMonsters_of e (gstate s) \<noteq> []"
  from ne obtain c where
    c: "chooseMonster (validMonsters_of e (gstate s)) (random e (Suc (rngCount s))) = Some c"
    using chooseMonster_None [of "validMonsters_of e (gstate s)" "random e (Suc (rngCount s))"]
    by (cases "chooseMonster (validMonsters_of e (gstate s)) (random e (Suc (rngCount s)))") auto
  have st: "checkForEncounters_start e s =
      (Pending, generateAi_start e (JSON_stringify e (PromptObject
              \<lparr>pd_currentTerrain = currentTerrain_text (gstate s) ct,
               pd_monster = makeMonster c (random e (Suc (Suc (rngCount s)))),
               pd_playerState = player (gstate s),
               pd_surroundingTerrain = surroundingTerrain_text e (gstate s)\<rparr>))
           (s\<lparr>rngCount := Suc (Suc (Suc (rngCount s)))\<rparr>))"
    using ct trig c by (simp add: checkForEncounters_start_def mathRandom_def Let_def)
  show ?thesis
    using c
    by (simp add: st checkForEncounters_def checkForEncounters_finish_def
        generateAi_finish_def generateAi_start_trace resume_trace emit_WINDOW_OPEN_def
        pause_def dispatch_def draw_def emitEffect_def encounterWindow_def Let_def)
qed

theorem C9_encounter_sequence_witness:
  "currentTerrain (world (gstate startedSys)) = Some forest
   \<and> \<not> random exampleEnv (rngCount startedSys) > real_of_int (difficulty forest) / 10
   \<and> validMonsters_of exampleEnv (gstate startedSys) \<noteq> []
   \<and> trace (snd (checkForEncounters exampleEnv (JsonData (Some ''A wyvern dives.'')) startedSys)) =
       [Dispatch (Ui_isPaused True), Redraw,
        Fetch \<lparr>req_url = ''/api/gen'',
                req_body = ''{prompt:{0,0: Woods forest|Wyvern|7|175|1,0: Plains meadow}}'',
                req_headers = [(''Content-Type'', ''application/json'')],
                req_method = ''POST''\<rparr>,
        Dispatch (Ui_isPaused False), Redraw, Redraw,
        Emit_WINDOW_OPEN (encounterWindow (Some ''A wyvern dives.'')),
        Dispatch (Ui_isPaused True), Redraw,
        NewWindow (encounterWindow (Some ''A wyvern dives.''))]"
proof -
  have a: "currentTerrain (world (gstate startedSys)) = Some forest"
    by (simp add: startedSys_eq)
  have b: "\<not> random exampleEnv (rngCount startedSys) > real_of_int (difficulty forest) / 10"
    by (simp add: startedSys_eq exampleEnv_def forest_def)
  have v: "validMonsters_of exampleEnv (gstate startedSys) = [wolf, wyvern]"
    by (simp add: startedSys_eq world_defs)
  then have n: "validMonsters_of exampleEnv (gstate startedSys) \<noteq> []"
    by simp
  have ch: "chooseMonster [wolf, wyvern] (random exampleEnv (rngCount startedSys + 1)) = Some wyvern"
    by (simp add: startedSys_eq world_defs)
  have bd: "JSON_stringify exampleEnv (BodyObject (JSON_stringify exampleEnv (PromptObject
              \<lparr>pd_currentTerrain = currentTerrain_text (gstate startedSys) forest,
               pd_monster = makeMonster wyvern (random exampleEnv (rngCount startedSys + 2)),
               pd_playerState = player (gstate startedSys),
               pd_surroundingTerrain = surroundingTerrain_text exampleEnv (gstate startedSys)\<rparr>)))
       = ''{prompt:{0,0: Woods forest|Wyvern|7|175|1,0: Plains meadow}}''"
    by (simp add: startedSys_eq world_defs)
  have tr: "trace startedSys = []"
    by (simp add: startedSys_eq)
  from C9_encounter_sequence [OF a b n, of "Some ''A wyvern dives.''"]
  obtain cm where
    cm: "chooseMonster (validMonsters_of exampleEnv (gstate startedSys))
           (random exampleEnv (rngCount startedSys + 1)) = Some cm"
    and run: "trace (snd (checkForEncounters exampleEnv (JsonData (Some ''A wyvern dives.'')) startedSys)) =
       trace startedSys @
       [Dispatch (Ui_isPaused True), Redraw,
        Fetch \<lparr>req_url = ''/api/gen'',
                req_body = JSON_stringify exampleEnv (BodyObject (JSON_stringify exampleEnv
                  (PromptObject
                    \<lparr>pd_currentTerrain = currentTerrain_text (gstate startedSys) forest,
                     pd_monster = makeMonster cm (random exampleEnv (rngCount startedSys + 2)),
                     pd_playerState = player (gstate startedSys),
                     pd_surroundingTerrain = surroundingTerrain_text exampleEnv (gstate startedSys)\<rparr>))),
                req_headers = [(''Content-Type'', ''application/json'')],
                req_method = ''POST''\<rparr>,
        Dispatch (Ui_isPaused False), Redraw, Redraw,
        Emit_WINDOW_OPEN (encounterWindow (Some ''A wyvern dives.'')),
        Dispatch (Ui_isPaused True), Redraw,
        NewWindow (encounterWindow (Some ''A wyvern dives.''))]"
    unfolding Let_def by blast
  from cm have "cm = wyvern"
    unfolding v ch by simp
  with run bd tr a b n show ?thesis
    by simp
qed

section \<open>The font of the render surface\<close>

lemma canvas_step_font: "cv_font (canvas_step c cv) = cv_font cv"
  by (cases c) (simp_all add: setColor_def rect_def text_draw_def Let_def)

lemma fold_canvas_step_font: "cv_font (fold canvas_step ops cv) = cv_font cv"
  by (induction ops arbitrary: cv) (simp_all add: canvas_step_font)

text \<open>
  Claim C10. \<^verbatim>\<open>setFont\<close> called without the style argument sets the font string to the
  size, \<^verbatim>\<open>px\<close>, the name and the literal word \<^verbatim>\<open>undefined\<close>. The string stays through
  any later colour, rectangle and text calls, and every later text draw assigns it to
  the font of the context. The call in \<^verbatim>\<open>Game.draw\<close>, size 16 and name
  \<^verbatim>\<open>ui-monospace\<close>, gives \<^verbatim>\<open>16px ui-monospace undefined\<close>.
\<close>

theorem C10_setFont_without_style:
  "cv_font (setFont sz name None cv) = numberToString sz @ ''px '' @ name @ '' undefined''
   \<and> cv_font (fold canvas_step ops (setFont sz name None cv))
       = numberToString sz @ ''px '' @ name @ '' undefined''
   \<and> ctx_font (text_draw txt x y (fold canvas_step ops (setFont sz name None cv)))
       = numberToString sz @ ''px '' @ name @ '' undefined''
   \<and> fst (last (fillText_calls (text_draw txt x y (fold canvas_step ops (setFont sz name None cv)))))
       = numberToString sz @ ''px '' @ name @ '' undefined''
   \<and> cv_font (setFont 16 ''ui-monospace'' None newCanvas) = ''16px ui-monospace undefined''"
proof -
  have f: "cv_font (setFont sz name None cv) = numberToString sz @ ''px '' @ name @ '' undefined''"
    by (simp add: setFont_def interpolate_def)
  have k: "cv_font (fold canvas_step ops (setFont sz name None cv))
       = numberToString sz @ ''px '' @ name @ '' undefined''"
    by (simp add: fold_canvas_step_font f)
  have c: "cv_font (setFont 16 ''ui-monospace'' None newCanvas) = ''16px ui-monospace undefined''"
    by (simp add: setFont_def interpolate_def numberToString_def digits.simps digit_char_def)
  from f k c show ?thesis
    by (simp add: text_draw_def Let_def)
qed

end
